theory Spec2Isabelle
  imports Complex_Main
begin

section \<open>Thermal cycle profile engine (MAIN01.py, web.py)\<close>

text \<open>
  The two source files carry the same \<open>calculate_temperature_profile\<close>, line for line
  (MAIN01.py 80-156, web.py 35-110); they differ only in how the caught exception is
  reported. One embedding serves both.

  Numbers. Python's \<open>float\<close> is embedded as \<open>real\<close>: sums, differences and quotients are
  exact, \<open>!=\<close> is equality of reals, and there is neither rounding nor NaN nor infinity.
  \<open>cycles\<close> is a Python \<open>int\<close>, embedded as \<open>int\<close>.

  Strings. A Python \<open>str\<close> is a sequence of Unicode code points; the labels of the source
  are Chinese literals, so a string is embedded as the list of its code points.
\<close>

type_synonym pystr = "nat list"

subsection \<open>Label literals\<close>

text \<open>Each constant is one string literal of the source, named by its meaning.\<close>

definition initial_start :: pystr where
  \<comment> \<open>MAIN01.py line 89: "initial temperature start"\<close>
  "initial_start = [0x521D, 0x59CB, 0x6E29, 0x5EA6, 0x5F00, 0x59CB]"

definition initial_end :: pystr where
  \<comment> \<open>line 92: "initial temperature end"\<close>
  "initial_end = [0x521D, 0x59CB, 0x6E29, 0x5EA6, 0x7ED3, 0x675F]"

definition first_cycle :: pystr where
  \<comment> \<open>line 100: "first cycle"\<close>
  "first_cycle = [0x9996, 0x5FAA, 0x73AF]"

definition last_cycle :: pystr where
  \<comment> \<open>line 104: "last cycle"\<close>
  "last_cycle = [0x672B, 0x5FAA, 0x73AF]"

definition middle_cycle :: pystr where
  \<comment> \<open>line 108: "middle cycle", the text before the formatted cycle number\<close>
  "middle_cycle = [0x4E2D, 0x95F4, 0x5FAA, 0x73AF]"

definition high_reached :: pystr where
  \<comment> \<open>line 116: "high temperature reached"\<close>
  "high_reached = [0x9AD8, 0x6E29, 0x8FBE, 0x5230]"

definition high_end :: pystr where
  \<comment> \<open>line 122: "high temperature end"\<close>
  "high_end = [0x9AD8, 0x6E29, 0x7ED3, 0x675F]"

definition low_reached :: pystr where
  \<comment> \<open>line 131: "low temperature reached"\<close>
  "low_reached = [0x4F4E, 0x6E29, 0x8FBE, 0x5230]"

definition low_end :: pystr where
  \<comment> \<open>line 137: "low temperature end"\<close>
  "low_end = [0x4F4E, 0x6E29, 0x7ED3, 0x675F]"

definition recovery_reached :: pystr where
  \<comment> \<open>line 145: "recovery temperature reached"\<close>
  "recovery_reached = [0x56DE, 0x6E29, 0x6E29, 0x5EA6, 0x8FBE, 0x5230]"

definition recovery_end :: pystr where
  \<comment> \<open>line 150: "recovery end"\<close>
  "recovery_end = [0x56DE, 0x6E29, 0x7ED3, 0x675F]"

text \<open>The decimal rendering of an \<open>int\<close> inside an f-string (line 108).\<close>

fun digits :: "nat \<Rightarrow> pystr" where
  "digits n = (if n < 10 then [48 + n] else digits (n div 10) @ [48 + n mod 10])"

declare digits.simps [simp del]

definition str_int :: "int \<Rightarrow> pystr" where
  "str_int i = (if i < 0 then 45 # digits (nat (- i)) else digits (nat i))"

subsection \<open>Parameters, points and the state of the walk\<close>

text \<open>
  \<open>params\<close> is the dictionary built by \<open>get_user_input\<close> (MAIN01.py 39-77) and by the
  web form (web.py 299-317): always the same seventeen keys, so a record.
\<close>

record params =
  initial_temp :: real
  initial_time :: real
  recovery_temp :: real
  recovery_time :: real
  high_temp :: real
  high_tolerance :: real
  low_temp :: real
  low_tolerance :: real
  first_high_time :: real
  first_low_time :: real
  last_high_time :: real
  last_low_time :: real
  middle_high_time :: real
  middle_low_time :: real
  heat_rate :: real
  cool_rate :: real
  cycles :: int

datatype error = ZeroDivisionError | ValueError | IndexError | OSError

text \<open>A profile point is the tuple \<open>(time, temperature, description)\<close>.\<close>

type_synonym point = "real \<times> real \<times> pystr"

text \<open>The four local variables the function updates as it goes.\<close>

record sim_state =
  profile :: "point list"
  key_points :: "int list"
  current_time :: real
  current_temp :: real

subsection \<open>The phases\<close>

text \<open>
  \<open>emit\<close> is the pair of statements that follows every phase:
  \<open>profile.append((current_time, temp, label)); key_points.append(len(profile) - 1)\<close>.
\<close>

definition emit :: "real \<Rightarrow> pystr \<Rightarrow> sim_state \<Rightarrow> sim_state" where
  "emit temp label s =
     (let profile' = profile s @ [(current_time s, temp, label)]
      in s\<lparr>profile := profile', key_points := key_points s @ [int (length profile') - 1]\<rparr>)"

text \<open>
  \<open>ramp\<close> is the block the source writes three times (lines 111-118 towards \<open>high_temp\<close>,
  127-133 towards \<open>low_temp\<close>, 141-147 towards \<open>recovery_temp\<close>), the copies differing in
  target and label only. Dividing a float by zero raises \<open>ZeroDivisionError\<close>.
\<close>

definition ramp :: "params \<Rightarrow> real \<Rightarrow> pystr \<Rightarrow> sim_state \<Rightarrow> error + sim_state" where
  "ramp p target label s =
     (let temp_diff = target - current_temp s in
      if temp_diff \<noteq> 0 then
        (let rate = (if temp_diff > 0 then heat_rate p else cool_rate p) in
         if rate = 0 then Inl ZeroDivisionError
         else
           (let time_change = \<bar>temp_diff\<bar> / rate;
                s1 = s\<lparr>current_time := current_time s + time_change\<rparr>;
                s2 = emit target label s1
            in Inr (s2\<lparr>current_temp := target\<rparr>)))
      else Inr s)"

text \<open>
  \<open>hold\<close> is the block \<open>current_time += d; profile.append((current_time, current_temp,
  label)); key_points.append(len(profile) - 1)\<close> (lines 91-93, 121-123, 136-138, 149-151).
\<close>

definition hold :: "real \<Rightarrow> pystr \<Rightarrow> sim_state \<Rightarrow> sim_state" where
  "hold d label s = emit (current_temp s) label (s\<lparr>current_time := current_time s + d\<rparr>)"

text \<open>The \<open>if/elif/else\<close> of lines 97-108: hold durations and label prefix of a cycle.\<close>

definition cycle_settings :: "params \<Rightarrow> int \<Rightarrow> real \<times> real \<times> pystr" where
  "cycle_settings p cycle =
     (if cycle = 0 then (first_high_time p, first_low_time p, first_cycle)
      else if cycle = cycles p - 1 then (last_high_time p, last_low_time p, last_cycle)
      else (middle_high_time p, middle_low_time p, middle_cycle @ str_int cycle))"

text \<open>The body of the \<open>for\<close> loop, lines 97-138.\<close>

definition cycle_body :: "params \<Rightarrow> int \<Rightarrow> sim_state \<Rightarrow> error + sim_state" where
  "cycle_body p cycle s =
     (case cycle_settings p cycle of (high_time, low_time, cycle_type) \<Rightarrow>
      (case ramp p (high_temp p) (cycle_type @ high_reached) s of
         Inl e \<Rightarrow> Inl e
       | Inr s1 \<Rightarrow>
          (let s2 = hold high_time (cycle_type @ high_end) s1 in
           if cycle < cycles p - 1 then
             (case ramp p (low_temp p) (cycle_type @ low_reached) s2 of
                Inl e \<Rightarrow> Inl e
              | Inr s3 \<Rightarrow> Inr (hold low_time (cycle_type @ low_end) s3))
           else Inr s2)))"

text \<open>
  \<open>for cycle in range(params['cycles'])\<close>: \<open>run_cycles p cycle s\<close> runs the iterations
  \<open>cycle, cycle + 1, ..., cycles - 1\<close> from the state \<open>s\<close>; an exception ends the loop.
\<close>

function run_cycles :: "params \<Rightarrow> int \<Rightarrow> sim_state \<Rightarrow> error + sim_state" where
  "run_cycles p cycle s =
     (if cycle < cycles p then
        (case cycle_body p cycle s of
           Inl e \<Rightarrow> Inl e
         | Inr s' \<Rightarrow> run_cycles p (cycle + 1) s')
      else Inr s)"
  by pat_completeness auto
termination
  by (relation "measure (\<lambda>(p, cycle, s). nat (cycles p - cycle))") auto

declare run_cycles.simps [simp del]

subsection \<open>The simulator\<close>

text \<open>The \<open>try\<close> block, lines 83-153.\<close>

definition simulate :: "params \<Rightarrow> error + point list \<times> int list" where
  "simulate p =
     (let s0 = \<lparr>profile = [], key_points = [], current_time = 0,
                current_temp = initial_temp p\<rparr>;
          s1 = emit (current_temp s0) initial_start s0;
          s2 = hold (initial_time p) initial_end s1
      in case run_cycles p 0 s2 of
           Inl e \<Rightarrow> Inl e
         | Inr s3 \<Rightarrow>
            (case ramp p (recovery_temp p) recovery_reached s3 of
               Inl e \<Rightarrow> Inl e
             | Inr s4 \<Rightarrow>
                (let s5 = hold (recovery_time p) recovery_end s4
                 in Inr (profile s5, key_points s5))))"

text \<open>
  The function itself: \<open>except Exception\<close> reports the error and returns
  \<open>(None, None)\<close>, here \<open>None\<close>; otherwise the pair \<open>(profile, key_points)\<close>.
\<close>

definition calculate_temperature_profile :: "params \<Rightarrow> (point list \<times> int list) option" where
  "calculate_temperature_profile p =
     (case simulate p of Inl e \<Rightarrow> None | Inr r \<Rightarrow> Some r)"

section \<open>Key-point annotation layout (create_chart_png, create_chart_image)\<close>

text \<open>
  The chart functions draw through matplotlib's implicit current figure. What the
  repository decides is where each label goes; the embedding keeps exactly that: the
  anchor of every text label, and the axis bounds that MAIN01.py sets after the loop.
  The values of \<open>plt.xlim()\<close> and \<open>plt.ylim()\<close> read inside the loop belong to the plotting
  library, so they are the parameters \<open>xlim\<close> and \<open>ylim\<close>. The label texts
  (\<open>f'{time:.2f}h'\<close>, \<open>f'{temp:.1f}...'\<close>) are float formatting and are left out.
  Writing the image, \<open>plt.savefig\<close>, depends on the file system and the backend: whether
  it returns normally is the parameter \<open>saved\<close>, and when it does not the exception is
  taken to be an \<open>OSError\<close>.
\<close>

text \<open>\<open>xs[i]\<close> for a Python list: a negative index counts from the end.\<close>

definition py_index :: "'a list \<Rightarrow> int \<Rightarrow> error + 'a" where
  "py_index xs i =
     (if 0 \<le> i \<and> i < int (length xs) then Inr (xs ! nat i)
      else if - int (length xs) \<le> i \<and> i < 0 then Inr (xs ! nat (int (length xs) + i))
      else Inl IndexError)"

text \<open>\<open>max\<close> and \<open>min\<close> of a list raise \<open>ValueError\<close> on the empty list.\<close>

definition py_max :: "real list \<Rightarrow> error + real" where
  "py_max xs = (case xs of [] \<Rightarrow> Inl ValueError | x # rest \<Rightarrow> Inr (fold max rest x))"

definition py_min :: "real list \<Rightarrow> error + real" where
  "py_min xs = (case xs of [] \<Rightarrow> Inl ValueError | x # rest \<Rightarrow> Inr (fold min rest x))"

record annotation =
  marker :: "real \<times> real"
  time_label :: "real \<times> real"
  temp_label :: "real \<times> real"

text \<open>
  The time-axis label of one key point, MAIN01.py 248-257 (web.py 197-205). \<open>used\<close> is the
  list \<open>used_positions\<close>; the result is the label's anchor and the list afterwards.
\<close>

definition place_time_label ::
  "real \<times> real \<Rightarrow> real \<times> real \<Rightarrow> (real \<times> real) list \<Rightarrow> real
     \<Rightarrow> (real \<times> real) \<times> (real \<times> real) list" where
  "place_time_label xlim ylim used time =
     (let x_pos = time;
          y_text_pos = fst ylim + (snd ylim - fst ylim) * 0.02;
          label_offset = 0.03 * (snd xlim - fst xlim);
          overlap = list_ex (\<lambda>(used_x, _). \<bar>x_pos - used_x\<bar> < label_offset) used
      in if overlap then ((x_pos, fst ylim + (snd ylim - fst ylim) * 0.06), used)
         else ((x_pos, y_text_pos), used @ [(x_pos, y_text_pos)]))"

text \<open>The temperature-axis label, MAIN01.py 267-276 (web.py 215-223), on the same list.\<close>

definition place_temp_label ::
  "real \<times> real \<Rightarrow> real \<times> real \<Rightarrow> (real \<times> real) list \<Rightarrow> real
     \<Rightarrow> (real \<times> real) \<times> (real \<times> real) list" where
  "place_temp_label xlim ylim used temp =
     (let y_pos = temp;
          x_text_pos = fst xlim + (snd xlim - fst xlim) * 0.02;
          y_overlap = list_ex (\<lambda>(_, used_y). \<bar>y_pos - used_y\<bar> < 0.03 * (snd ylim - fst ylim)) used
      in if y_overlap then ((fst xlim + (snd xlim - fst xlim) * 0.06, y_pos), used)
         else ((x_text_pos, y_pos), used @ [(x_text_pos, y_pos)]))"

text \<open>One iteration of the loop over the key points: marker, then the two labels.\<close>

definition annotate_point ::
  "real \<times> real \<Rightarrow> real \<times> real \<Rightarrow> (real \<times> real) list \<Rightarrow> real \<Rightarrow> real
     \<Rightarrow> annotation \<times> (real \<times> real) list" where
  "annotate_point xlim ylim used time temp =
     (case place_time_label xlim ylim used time of (tl_pos, used1) \<Rightarrow>
      (case place_temp_label xlim ylim used1 temp of (tp_pos, used2) \<Rightarrow>
        (\<lparr>marker = (time, temp), time_label = tl_pos, temp_label = tp_pos\<rparr>, used2)))"

text \<open>
  \<open>for idx in key_indices\<close>. \<open>times[idx]\<close>, \<open>temps[idx]\<close> and \<open>descriptions[idx]\<close> are the
  three components of \<open>profile[idx]\<close>, so one lookup stands for the three.
\<close>

fun annotate ::
  "real \<times> real \<Rightarrow> real \<times> real \<Rightarrow> point list \<Rightarrow> int list \<Rightarrow> (real \<times> real) list
     \<Rightarrow> error + annotation list" where
  "annotate xlim ylim prof [] used = Inr []"
| "annotate xlim ylim prof (idx # rest) used =
     (case py_index prof idx of
        Inl e \<Rightarrow> Inl e
      | Inr (time, temp, desc) \<Rightarrow>
         (case annotate_point xlim ylim used time temp of (a, used') \<Rightarrow>
           (case annotate xlim ylim prof rest used' of
              Inl e \<Rightarrow> Inl e
            | Inr anns \<Rightarrow> Inr (a # anns))))"

text \<open>\<open>key_indices = list(set(key_points)); key_indices.sort()\<close>.\<close>

definition key_indices :: "int list \<Rightarrow> int list" where
  "key_indices kps = sort (remdups kps)"

record chart =
  annotations :: "annotation list"
  x_axis :: "real \<times> real"
  y_axis :: "real \<times> real"

text \<open>
  MAIN01.py, the \<open>try\<close> block of \<open>create_chart_png\<close> (219-316): the loop, then the axis
  bounds of lines 300-302, then \<open>plt.savefig\<close> (line 312). The function returns \<open>True\<close>,
  or \<open>False\<close> from the \<open>except\<close> clause.
\<close>

definition chart_png_body ::
  "bool \<Rightarrow> real \<times> real \<Rightarrow> real \<times> real \<Rightarrow> point list \<Rightarrow> int list \<Rightarrow> error + chart" where
  "chart_png_body saved xlim ylim prof kps =
     (let times = map fst prof; temps = map (\<lambda>pt. fst (snd pt)) prof in
      case annotate xlim ylim prof (key_indices kps) [] of
        Inl e \<Rightarrow> Inl e
      | Inr anns \<Rightarrow>
         (case py_max times of
            Inl e \<Rightarrow> Inl e
          | Inr max_time \<Rightarrow>
             (case py_min temps of
                Inl e \<Rightarrow> Inl e
              | Inr min_temp \<Rightarrow>
                 (case py_max temps of
                    Inl e \<Rightarrow> Inl e
                  | Inr max_temp \<Rightarrow>
                     if saved then
                       Inr \<lparr>annotations = anns, x_axis = (0, max_time * 1.15),
                            y_axis = (min 0 (min_temp * 1.15), max_temp * 1.15)\<rparr>
                     else Inl OSError))))"

definition create_chart_png ::
  "bool \<Rightarrow> real \<times> real \<Rightarrow> real \<times> real \<Rightarrow> point list \<Rightarrow> int list \<Rightarrow> bool" where
  "create_chart_png saved xlim ylim prof kps =
     (case chart_png_body saved xlim ylim prof kps of Inl e \<Rightarrow> False | Inr c \<Rightarrow> True)"

text \<open>
  web.py, \<open>create_chart_image\<close> (172-240): the same loop, no axis bounds, then
  \<open>plt.savefig\<close> into a buffer (line 234). It returns the image buffer, here the
  annotations drawn into it, or \<open>None\<close> from the \<open>except\<close> clause.
\<close>

definition chart_image_body ::
  "bool \<Rightarrow> real \<times> real \<Rightarrow> real \<times> real \<Rightarrow> point list \<Rightarrow> int list
     \<Rightarrow> error + annotation list" where
  "chart_image_body saved xlim ylim prof kps =
     (case annotate xlim ylim prof (key_indices kps) [] of
        Inl e \<Rightarrow> Inl e
      | Inr anns \<Rightarrow> if saved then Inr anns else Inl OSError)"

definition create_chart_image ::
  "bool \<Rightarrow> real \<times> real \<Rightarrow> real \<times> real \<Rightarrow> point list \<Rightarrow> int list
     \<Rightarrow> annotation list option" where
  "create_chart_image saved xlim ylim prof kps =
     (case chart_image_body saved xlim ylim prof kps of Inl e \<Rightarrow> None | Inr anns \<Rightarrow> Some anns)"

text \<open>
  Both \<open>main\<close> functions test the simulator's result before they go on to the files
  (MAIN01.py 331-333, web.py 322-325): \<open>if not profile or not key_points: return\<close>.
  \<open>None\<close> and the empty list are both false in Python.
\<close>

definition passes_profile_guard :: "(point list \<times> int list) option \<Rightarrow> bool" where
  "passes_profile_guard r =
     (case r of None \<Rightarrow> False | Some (prof, kps) \<Rightarrow> \<not> (prof = [] \<or> kps = []))"

section \<open>Concrete inputs\<close>

text \<open>
  The scenario of the specification: rates of 3 and 4 degrees per minute, already
  converted to degrees per hour, and three cycles.
\<close>

definition scenario :: params where
  "scenario =
     \<lparr>initial_temp = 70, initial_time = 1/2, recovery_temp = 40, recovery_time = 1/2,
      high_temp = 100, high_tolerance = 2, low_temp = -20, low_tolerance = 2,
      first_high_time = 1/4, first_low_time = 2, last_high_time = 1/4, last_low_time = 2,
      middle_high_time = 1, middle_low_time = 1, heat_rate = 180, cool_rate = 240,
      cycles = 3\<rparr>"

text \<open>The profile the simulator returns for it, times as exact fractions of an hour.\<close>

definition scenario_points :: "point list" where
  "scenario_points =
     [(0, 70, initial_start),
      (1/2, 70, initial_end),
      (2/3, 100, first_cycle @ high_reached),
      (11/12, 100, first_cycle @ high_end),
      (17/12, -20, first_cycle @ low_reached),
      (41/12, -20, first_cycle @ low_end),
      (49/12, 100, (middle_cycle @ str_int 1) @ high_reached),
      (61/12, 100, (middle_cycle @ str_int 1) @ high_end),
      (67/12, -20, (middle_cycle @ str_int 1) @ low_reached),
      (79/12, -20, (middle_cycle @ str_int 1) @ low_end),
      (29/4, 100, last_cycle @ high_reached),
      (15/2, 100, last_cycle @ high_end),
      (31/4, 40, recovery_reached),
      (33/4, 40, recovery_end)]"

text \<open>
  The scenario started at the high temperature, so that the first ramp has nothing to do.
\<close>

definition degenerate :: params where
  "degenerate = scenario\<lparr>initial_temp := 100\<rparr>"

definition degenerate_points :: "point list" where
  "degenerate_points =
     [(0, 100, initial_start),
      (1/2, 100, initial_end),
      (3/4, 100, first_cycle @ high_end),
      (5/4, -20, first_cycle @ low_reached),
      (13/4, -20, first_cycle @ low_end),
      (47/12, 100, (middle_cycle @ str_int 1) @ high_reached),
      (59/12, 100, (middle_cycle @ str_int 1) @ high_end),
      (65/12, -20, (middle_cycle @ str_int 1) @ low_reached),
      (77/12, -20, (middle_cycle @ str_int 1) @ low_end),
      (85/12, 100, last_cycle @ high_reached),
      (22/3, 100, last_cycle @ high_end),
      (91/12, 40, recovery_reached),
      (97/12, 40, recovery_end)]"

text \<open>
  The axis limits matplotlib gives the scenario's curve, with its default margin of 5%
  of the data range on each side: times from 0 to 33/4, temperatures from -20 to 100.
\<close>

definition scenario_xlim :: "real \<times> real" where
  "scenario_xlim = (- 33/80, 693/80)"

definition scenario_ylim :: "real \<times> real" where
  "scenario_ylim = (- 26, 106)"

text \<open>The annotations the loop computes for the scenario's profile within these limits.\<close>

definition scenario_annotations :: "annotation list" where
  "scenario_annotations =
     [\<lparr>marker = (0, 70), time_label = (0, - 584/25), temp_label = (- 231/1000, 70)\<rparr>,
      \<lparr>marker = (1/2, 70), time_label = (1/2, - 584/25), temp_label = (33/250, 70)\<rparr>,
      \<lparr>marker = (2/3, 100), time_label = (2/3, - 452/25), temp_label = (- 231/1000, 100)\<rparr>,
      \<lparr>marker = (11/12, 100), time_label = (11/12, - 584/25), temp_label = (33/250, 100)\<rparr>,
      \<lparr>marker = (17/12, - 20), time_label = (17/12, - 584/25), temp_label = (33/250, - 20)\<rparr>,
      \<lparr>marker = (41/12, - 20), time_label = (41/12, - 584/25), temp_label = (33/250, - 20)\<rparr>,
      \<lparr>marker = (49/12, 100), time_label = (49/12, - 584/25), temp_label = (33/250, 100)\<rparr>,
      \<lparr>marker = (61/12, 100), time_label = (61/12, - 584/25), temp_label = (33/250, 100)\<rparr>,
      \<lparr>marker = (67/12, - 20), time_label = (67/12, - 584/25), temp_label = (33/250, - 20)\<rparr>,
      \<lparr>marker = (79/12, - 20), time_label = (79/12, - 584/25), temp_label = (33/250, - 20)\<rparr>,
      \<lparr>marker = (29/4, 100), time_label = (29/4, - 584/25), temp_label = (33/250, 100)\<rparr>,
      \<lparr>marker = (15/2, 100), time_label = (15/2, - 452/25), temp_label = (33/250, 100)\<rparr>,
      \<lparr>marker = (31/4, 40), time_label = (31/4, - 584/25), temp_label = (- 231/1000, 40)\<rparr>,
      \<lparr>marker = (33/4, 40), time_label = (33/4, - 584/25), temp_label = (33/250, 40)\<rparr>]"

section \<open>Invariants of the walk\<close>

text \<open>
  A ramp from \<open>current\<close> to \<open>target\<close> divides by zero: the two tests of the ramp block,
  the temperatures differ and the rate chosen by the sign of the difference is 0.
\<close>

definition zero_rate_ramp :: "params \<Rightarrow> real \<Rightarrow> real \<Rightarrow> bool" where
  "zero_rate_ramp p current target \<longleftrightarrow>
     target - current \<noteq> 0 \<and> (if target - current > 0 then heat_rate p else cool_rate p) = 0"

text \<open>
  The loop entered at iteration \<open>c\<close> with the temperature \<open>current\<close> meets such a ramp:
  the ramp to the high temperature now, or, when another cycle follows, one of the two
  ramps between the high and the low temperature.
\<close>

definition loop_fails :: "params \<Rightarrow> int \<Rightarrow> real \<Rightarrow> bool" where
  "loop_fails p c current \<longleftrightarrow>
     zero_rate_ramp p current (high_temp p) \<or>
     (c < cycles p - 1 \<and>
        (zero_rate_ramp p (high_temp p) (low_temp p) \<or> zero_rate_ramp p (low_temp p) (high_temp p)))"

text \<open>
  The anchors one annotation has appended to \<open>used_positions\<close>: its time-axis label when
  that sits on the first tier (2% above the lower y limit), then its temperature-axis
  label when that sits on the first tier (2% right of the lower x limit).
\<close>

definition committed :: "real \<times> real \<Rightarrow> real \<times> real \<Rightarrow> annotation \<Rightarrow> (real \<times> real) list" where
  "committed xlim ylim a =
     (if snd (time_label a) = fst ylim + (snd ylim - fst ylim) * 0.02 then [time_label a] else []) @
     (if fst (temp_label a) = fst xlim + (snd xlim - fst xlim) * 0.02 then [temp_label a] else [])"

text \<open>
  The times written so far are in order and none lies after the clock; all eight hold
  durations of a parameter record are non-negative.
\<close>

definition time_ordered :: "sim_state \<Rightarrow> bool" where
  "time_ordered s \<longleftrightarrow>
     sorted (map fst (profile s)) \<and> list_all (\<lambda>pt. fst pt \<le> current_time s) (profile s)"

definition nonneg_durations :: "params \<Rightarrow> bool" where
  "nonneg_durations p \<longleftrightarrow>
     0 \<le> initial_time p \<and> 0 \<le> recovery_time p \<and>
     0 \<le> first_high_time p \<and> 0 \<le> first_low_time p \<and>
     0 \<le> last_high_time p \<and> 0 \<le> last_low_time p \<and>
     0 \<le> middle_high_time p \<and> 0 \<le> middle_low_time p"

section \<open>Basic facts about the phases\<close>

lemma profile_emit [simp]: "profile (emit t l s) = profile s @ [(current_time s, t, l)]"
  by (simp add: emit_def Let_def)

lemma key_points_emit [simp]:
  "key_points (emit t l s) = key_points s @ [int (length (profile s))]"
  by (simp add: emit_def Let_def)

lemma current_time_emit [simp]: "current_time (emit t l s) = current_time s"
  by (simp add: emit_def Let_def)

lemma current_temp_emit [simp]: "current_temp (emit t l s) = current_temp s"
  by (simp add: emit_def Let_def)

lemma profile_hold [simp]:
  "profile (hold d l s) = profile s @ [(current_time s + d, current_temp s, l)]"
  by (simp add: hold_def)

lemma key_points_hold [simp]:
  "key_points (hold d l s) = key_points s @ [int (length (profile s))]"
  by (simp add: hold_def)

lemma current_time_hold [simp]: "current_time (hold d l s) = current_time s + d"
  by (simp add: hold_def)

lemma current_temp_hold [simp]: "current_temp (hold d l s) = current_temp s"
  by (simp add: hold_def)

lemma scenario_fields:
  "initial_temp scenario = 70" "initial_time scenario = 1/2" "recovery_temp scenario = 40"
  "recovery_time scenario = 1/2" "high_temp scenario = 100" "low_temp scenario = -20"
  "first_high_time scenario = 1/4" "first_low_time scenario = 2"
  "last_high_time scenario = 1/4" "last_low_time scenario = 2"
  "middle_high_time scenario = 1" "middle_low_time scenario = 1"
  "heat_rate scenario = 180" "cool_rate scenario = 240" "cycles scenario = 3"
  by (simp_all add: scenario_def)

lemma scenario_run:
  "calculate_temperature_profile scenario =
     Some (scenario_points, [0, 1, 2, 3, 4, 5, 6, 7, 8, 9, 10, 11, 12, 13])"
  by (simp add: calculate_temperature_profile_def simulate_def scenario_fields run_cycles.simps
        cycle_body_def cycle_settings_def ramp_def Let_def scenario_points_def)

section \<open>The ramp phase\<close>

text \<open>
  Claim C2, amended. In every ramp phase (towards the high, the low or the recovery
  temperature): when the current temperature equals the target, the phase is skipped,
  the state is unchanged and no point is emitted, whatever the rates are. Otherwise the
  rate is the heating rate for a target above the current temperature and the cooling
  rate for one below, and only this rate matters. If it is zero the division raises
  \<open>ZeroDivisionError\<close> and no point is emitted. If it is not zero, exactly one point is
  appended, at the target temperature, after a time step of \<open>|target - current| / rate\<close>;
  the step is positive for a positive rate and negative for a negative one. Equality of
  temperatures is exact, with no tolerance.
\<close>

theorem ramp_phase:
  "(current_temp s = target \<longrightarrow> ramp p target label s = Inr s) \<and>
   (current_temp s \<noteq> target \<longrightarrow>
      (let rate = (if current_temp s < target then heat_rate p else cool_rate p);
           dt = \<bar>target - current_temp s\<bar> / rate
       in (rate = 0 \<longrightarrow> ramp p target label s = Inl ZeroDivisionError) \<and>
          (rate \<noteq> 0 \<longrightarrow>
             ramp p target label s =
               Inr (s\<lparr>profile := profile s @ [(current_time s + dt, target, label)],
                      key_points := key_points s @ [int (length (profile s))],
                      current_time := current_time s + dt,
                      current_temp := target\<rparr>)) \<and>
          (0 < rate \<longrightarrow> 0 < dt) \<and>
          (rate < 0 \<longrightarrow> dt < 0)))"
  by (auto simp: ramp_def emit_def Let_def divide_neg_neg divide_pos_neg)

theorem ramp_phase_witness:
  "ramp scenario 100 high_reached
     \<lparr>profile = [(0, 100, initial_start), (1/2, 100, initial_end)], key_points = [0, 1],
      current_time = 1/2, current_temp = 100\<rparr> =
   Inr \<lparr>profile = [(0, 100, initial_start), (1/2, 100, initial_end)], key_points = [0, 1],
        current_time = 1/2, current_temp = 100\<rparr> \<and>
   ramp scenario 100 high_reached
     \<lparr>profile = [(0, 70, initial_start), (1/2, 70, initial_end)], key_points = [0, 1],
      current_time = 1/2, current_temp = 70\<rparr> =
   Inr \<lparr>profile = [(0, 70, initial_start), (1/2, 70, initial_end), (2/3, 100, high_reached)],
        key_points = [0, 1, 2], current_time = 2/3, current_temp = 100\<rparr> \<and>
   ramp (scenario\<lparr>cool_rate := 0\<rparr>) 40 recovery_reached
     \<lparr>profile = [(0, 70, initial_start), (1/2, 70, initial_end)], key_points = [0, 1],
      current_time = 1/2, current_temp = 70\<rparr> = Inl ZeroDivisionError \<and>
   ramp (scenario\<lparr>cool_rate := - 240\<rparr>) 40 recovery_reached
     \<lparr>profile = [(0, 70, initial_start), (1/2, 70, initial_end)], key_points = [0, 1],
      current_time = 1/2, current_temp = 70\<rparr> =
   Inr \<lparr>profile = [(0, 70, initial_start), (1/2, 70, initial_end), (3/8, 40, recovery_reached)],
        key_points = [0, 1, 2], current_time = 3/8, current_temp = 40\<rparr>"
  using
    ramp_phase [of
      "\<lparr>profile = [(0, 100, initial_start), (1/2, 100, initial_end)], key_points = [0, 1],
        current_time = 1/2, current_temp = 100\<rparr>" 100 scenario high_reached]
    ramp_phase [of
      "\<lparr>profile = [(0, 70, initial_start), (1/2, 70, initial_end)], key_points = [0, 1],
        current_time = 1/2, current_temp = 70\<rparr>" 100 scenario high_reached]
    ramp_phase [of
      "\<lparr>profile = [(0, 70, initial_start), (1/2, 70, initial_end)], key_points = [0, 1],
        current_time = 1/2, current_temp = 70\<rparr>" 40 "scenario\<lparr>cool_rate := 0\<rparr>"
      recovery_reached]
    ramp_phase [of
      "\<lparr>profile = [(0, 70, initial_start), (1/2, 70, initial_end)], key_points = [0, 1],
        current_time = 1/2, current_temp = 70\<rparr>" 40 "scenario\<lparr>cool_rate := - 240\<rparr>"
      recovery_reached]
  by (simp add: scenario_def Let_def)

text \<open>
  The claim as written fails: the command line accepts a rate of zero, and then the first
  ramp of the scenario, from 70 to 100, emits no point but raises; the simulator returns
  \<open>(None, None)\<close>.
\<close>

theorem ramp_phase_counterexample:
  "current_temp
     \<lparr>profile = [(0, 70, initial_start), (1/2, 70, initial_end)], key_points = [0, 1],
      current_time = 1/2, current_temp = 70\<rparr> \<noteq> high_temp (scenario\<lparr>heat_rate := 0\<rparr>) \<and>
   ramp (scenario\<lparr>heat_rate := 0\<rparr>) (high_temp (scenario\<lparr>heat_rate := 0\<rparr>))
     (first_cycle @ high_reached)
     \<lparr>profile = [(0, 70, initial_start), (1/2, 70, initial_end)], key_points = [0, 1],
      current_time = 1/2, current_temp = 70\<rparr> = Inl ZeroDivisionError \<and>
   calculate_temperature_profile (scenario\<lparr>heat_rate := 0\<rparr>) = None"
  by (simp add: calculate_temperature_profile_def simulate_def scenario_def run_cycles.simps
        cycle_body_def cycle_settings_def ramp_def Let_def)

section \<open>The scenario of the specification\<close>

text \<open>
  Claim C5. For the scenario (initial 70 for 0.5 h, high 100, low -20, recovery 40 for
  0.5 h, first and last holds 0.25 h and 2 h, middle holds 1 h, 180 and 240 degrees per
  hour, 3 cycles) the profile starts at \<open>(0, 70)\<close>, reaches \<open>(0.5, 70)\<close>, is at 100 at
  \<open>0.5 + 30/180\<close>, holds a quarter of an hour, is at -20 after another \<open>120/240\<close>, holds 2 h,
  goes through the middle and the last cycle in the same way, and ends with the ramp to
  40 and a hold of 0.5 h. The times the specification prints, 0.6667, 0.9167, 1.4167
  and 3.4167, are these values to four decimals.
\<close>

theorem scenario_profile:
  "calculate_temperature_profile scenario =
     Some (scenario_points, [0, 1, 2, 3, 4, 5, 6, 7, 8, 9, 10, 11, 12, 13]) \<and>
   map (\<lambda>(time, temp, label). (time, temp)) scenario_points =
     [(0, 70), (1/2, 70), (1/2 + 30/180, 100), (1/2 + 30/180 + 1/4, 100),
      (1/2 + 30/180 + 1/4 + 120/240, -20), (1/2 + 30/180 + 1/4 + 120/240 + 2, -20),
      (41/12 + 120/180, 100), (41/12 + 120/180 + 1, 100),
      (41/12 + 120/180 + 1 + 120/240, -20), (41/12 + 120/180 + 1 + 120/240 + 1, -20),
      (79/12 + 120/180, 100), (79/12 + 120/180 + 1/4, 100),
      (79/12 + 120/180 + 1/4 + 60/240, 40), (79/12 + 120/180 + 1/4 + 60/240 + 1/2, 40)] \<and>
   list_all2 (\<lambda>(time, temp, label) shown. \<bar>time - shown\<bar> < 0.00005)
     (take 6 scenario_points) [0, 0.5, 0.6667, 0.9167, 1.4167, 3.4167]"
  using scenario_run by (simp add: scenario_points_def)

section \<open>Every point is a key point\<close>

lemma kp_hold:
  "key_points s = map int [0..<length (profile s)] \<Longrightarrow>
   key_points (hold d l s) = map int [0..<length (profile (hold d l s))]"
  by simp

lemma kp_ramp:
  "ramp p target l s = Inr s' \<Longrightarrow> key_points s = map int [0..<length (profile s)] \<Longrightarrow>
   key_points s' = map int [0..<length (profile s')]"
  by (auto simp: ramp_def Let_def split: if_splits)

lemma kp_cycle_body:
  "cycle_body p c s = Inr s' \<Longrightarrow> key_points s = map int [0..<length (profile s)] \<Longrightarrow>
   key_points s' = map int [0..<length (profile s')]"
  unfolding cycle_body_def Let_def
  by (auto split: prod.splits sum.splits if_splits dest!: kp_ramp)

lemma kp_run_cycles:
  "run_cycles p c s = Inr s' \<Longrightarrow> key_points s = map int [0..<length (profile s)] \<Longrightarrow>
   key_points s' = map int [0..<length (profile s')]"
proof (induction p c s rule: run_cycles.induct)
  case (1 p cycle s)
  show ?case
  proof (cases "cycle < cycles p")
    case True
    with "1.prems"(1) obtain s1 where b: "cycle_body p cycle s = Inr s1"
      and r: "run_cycles p (cycle + 1) s1 = Inr s'"
      by (subst (asm) run_cycles.simps) (auto split: sum.splits)
    from "1.IH" [OF True b r kp_cycle_body [OF b "1.prems"(2)]] show ?thesis .
  next
    case False
    with "1.prems" show ?thesis
      by (subst (asm) run_cycles.simps) simp
  qed
qed

text \<open>
  Claim C9. Whenever the simulator succeeds, \<open>key_points\<close> is the list
  \<open>0, 1, ..., len(profile) - 1\<close>, in increasing order and without repetition: every
  point of the profile is a key point.
\<close>

theorem key_points_all_indices:
  assumes "calculate_temperature_profile p = Some (prof, kps)"
  shows "kps = map int [0..<length prof]"
proof -
  let ?s2 = "hold (initial_time p) initial_end
     (emit (initial_temp p) initial_start
        \<lparr>profile = [], key_points = [], current_time = 0, current_temp = initial_temp p\<rparr>)"
  from assms obtain s3 s4 where
    r: "run_cycles p 0 ?s2 = Inr s3" and
    rc: "ramp p (recovery_temp p) recovery_reached s3 = Inr s4" and
    pr: "prof = profile (hold (recovery_time p) recovery_end s4)" and
    kp: "kps = key_points (hold (recovery_time p) recovery_end s4)"
    by (auto simp: calculate_temperature_profile_def simulate_def Let_def split: sum.splits)
  have "key_points ?s2 = map int [0..<length (profile ?s2)]" by simp
  from kp_run_cycles [OF r this] have "key_points s3 = map int [0..<length (profile s3)]" .
  from kp_ramp [OF rc this] have "key_points s4 = map int [0..<length (profile s4)]" .
  from kp_hold [OF this] pr kp show ?thesis by simp
qed

theorem key_points_all_indices_witness:
  "calculate_temperature_profile scenario =
     Some (scenario_points, [0, 1, 2, 3, 4, 5, 6, 7, 8, 9, 10, 11, 12, 13]) \<and>
   [0, 1, 2, 3, 4, 5, 6, 7, 8, 9, 10, 11, 12, 13] = map int [0..<length scenario_points]"
  using scenario_run key_points_all_indices [OF scenario_run] by simp

lemma degenerate_fields:
  "initial_temp degenerate = 100" "high_temp degenerate = 100" "low_temp degenerate = -20"
  "recovery_temp degenerate = 40" "heat_rate degenerate = 180" "cool_rate degenerate = 240"
  "cycles degenerate = 3" "initial_time degenerate = 1/2" "first_high_time degenerate = 1/4"
  by (simp_all add: degenerate_def scenario_def)

lemma degenerate_run:
  "calculate_temperature_profile degenerate =
     Some (degenerate_points, [0, 1, 2, 3, 4, 5, 6, 7, 8, 9, 10, 11, 12])"
  by (simp add: calculate_temperature_profile_def simulate_def degenerate_def scenario_fields
        run_cycles.simps cycle_body_def cycle_settings_def ramp_def Let_def
        degenerate_points_def)

section \<open>What makes the simulator fail\<close>

lemma ramp_error: "ramp p target l s = Inl e \<Longrightarrow> e = ZeroDivisionError \<and> (heat_rate p = 0 \<or> cool_rate p = 0)"
  by (auto simp: ramp_def Let_def split: if_splits)

lemma cycle_body_error:
  "cycle_body p c s = Inl e \<Longrightarrow> e = ZeroDivisionError \<and> (heat_rate p = 0 \<or> cool_rate p = 0)"
  unfolding cycle_body_def Let_def
  by (auto split: prod.splits sum.splits if_splits dest: ramp_error)

lemma run_cycles_error:
  "run_cycles p c s = Inl e \<Longrightarrow> e = ZeroDivisionError \<and> (heat_rate p = 0 \<or> cool_rate p = 0)"
proof (induction p c s rule: run_cycles.induct)
  case (1 p cycle s)
  show ?case
  proof (cases "cycle < cycles p")
    case True
    show ?thesis
    proof (cases "cycle_body p cycle s")
      case (Inl e')
      with True "1.prems" have "e' = e" by (subst (asm) run_cycles.simps) simp
      with cycle_body_error Inl show ?thesis by blast
    next
      case (Inr s1)
      with True "1.prems" have "run_cycles p (cycle + 1) s1 = Inl e"
        by (subst (asm) run_cycles.simps) simp
      from "1.IH" [OF True Inr this] show ?thesis .
    qed
  next
    case False
    with "1.prems" show ?thesis by (subst (asm) run_cycles.simps) simp
  qed
qed

lemma simulate_error:
  "simulate p = Inl e \<Longrightarrow> e = ZeroDivisionError \<and> (heat_rate p = 0 \<or> cool_rate p = 0)"
  unfolding simulate_def Let_def
  by (auto split: sum.splits dest: run_cycles_error ramp_error)

lemma ramp_fails:
  "zero_rate_ramp p (current_temp s) target \<Longrightarrow> ramp p target l s = Inl ZeroDivisionError"
  by (simp add: zero_rate_ramp_def ramp_def Let_def)

lemma ramp_succeeds:
  "\<not> zero_rate_ramp p (current_temp s) target \<Longrightarrow>
   \<exists>s'. ramp p target l s = Inr s' \<and> current_temp s' = target"
  by (auto simp: zero_rate_ramp_def ramp_def Let_def)

lemma cycle_body_fails:
  assumes "zero_rate_ramp p (current_temp s) (high_temp p) \<or>
           (c < cycles p - 1 \<and> zero_rate_ramp p (high_temp p) (low_temp p))"
  shows "cycle_body p c s = Inl ZeroDivisionError"
proof -
  obtain ht lt ct where cs: "cycle_settings p c = (ht, lt, ct)" by (cases "cycle_settings p c")
  show ?thesis
  proof (cases "zero_rate_ramp p (current_temp s) (high_temp p)")
    case True
    from ramp_fails [OF True] cs show ?thesis by (simp add: cycle_body_def)
  next
    case False
    from ramp_succeeds [OF False] obtain s1 where
      r1: "ramp p (high_temp p) (ct @ high_reached) s = Inr s1" and
      t1: "current_temp s1 = high_temp p" by blast
    from False assms have lt: "c < cycles p - 1"
      and z: "zero_rate_ramp p (high_temp p) (low_temp p)" by auto
    from z t1 have "zero_rate_ramp p (current_temp (hold ht (ct @ high_end) s1)) (low_temp p)"
      by simp
    from ramp_fails [OF this] r1 cs lt show ?thesis by (simp add: cycle_body_def Let_def)
  qed
qed

lemma cycle_body_succeeds:
  assumes "\<not> zero_rate_ramp p (current_temp s) (high_temp p)"
    and "c < cycles p - 1 \<Longrightarrow> \<not> zero_rate_ramp p (high_temp p) (low_temp p)"
  shows "\<exists>s'. cycle_body p c s = Inr s' \<and>
     current_temp s' = (if c < cycles p - 1 then low_temp p else high_temp p)"
proof -
  obtain ht lt ct where cs: "cycle_settings p c = (ht, lt, ct)" by (cases "cycle_settings p c")
  from ramp_succeeds [OF assms(1)] obtain s1 where
    r1: "ramp p (high_temp p) (ct @ high_reached) s = Inr s1" and
    t1: "current_temp s1 = high_temp p" by blast
  show ?thesis
  proof (cases "c < cycles p - 1")
    case True
    from assms(2) [OF True] t1
    have "\<not> zero_rate_ramp p (current_temp (hold ht (ct @ high_end) s1)) (low_temp p)" by simp
    from ramp_succeeds [OF this] obtain s3 where
      "ramp p (low_temp p) (ct @ low_reached) (hold ht (ct @ high_end) s1) = Inr s3"
      "current_temp s3 = low_temp p" by blast
    with r1 cs True show ?thesis by (simp add: cycle_body_def Let_def)
  next
    case False
    with r1 t1 cs show ?thesis by (simp add: cycle_body_def Let_def)
  qed
qed

lemma run_cycles_outcome:
  "c < cycles p \<Longrightarrow>
   (if loop_fails p c (current_temp s) then run_cycles p c s = Inl ZeroDivisionError
    else \<exists>s'. run_cycles p c s = Inr s' \<and> current_temp s' = high_temp p)"
proof (induction p c s rule: run_cycles.induct)
  case (1 p cycle s)
  let ?first = "zero_rate_ramp p (current_temp s) (high_temp p) \<or>
           (cycle < cycles p - 1 \<and> zero_rate_ramp p (high_temp p) (low_temp p))"
  show ?case
  proof (cases ?first)
    case True
    from cycle_body_fails [OF True] "1.prems" have "run_cycles p cycle s = Inl ZeroDivisionError"
      by (subst run_cycles.simps) simp
    moreover from True have "loop_fails p cycle (current_temp s)" by (auto simp: loop_fails_def)
    ultimately show ?thesis by simp
  next
    case False
    then have "\<not> zero_rate_ramp p (current_temp s) (high_temp p)"
      and "cycle < cycles p - 1 \<Longrightarrow> \<not> zero_rate_ramp p (high_temp p) (low_temp p)" by auto
    from cycle_body_succeeds [OF this] obtain s1 where
      b: "cycle_body p cycle s = Inr s1" and
      t1: "current_temp s1 = (if cycle < cycles p - 1 then low_temp p else high_temp p)"
      by blast
    have unf: "run_cycles p cycle s = run_cycles p (cycle + 1) s1"
      using "1.prems" b by (subst run_cycles.simps) simp
    show ?thesis
    proof (cases "cycle + 1 < cycles p")
      case True
      then have lt: "cycle < cycles p - 1" by simp
      from "1.IH" [OF "1.prems" b True] t1 lt
      have ih: "if loop_fails p (cycle + 1) (low_temp p)
                then run_cycles p (cycle + 1) s1 = Inl ZeroDivisionError
                else \<exists>s'. run_cycles p (cycle + 1) s1 = Inr s' \<and> current_temp s' = high_temp p"
        by simp
      have "loop_fails p (cycle + 1) (low_temp p) = loop_fails p cycle (current_temp s)"
        using False lt by (auto simp: loop_fails_def)
      with ih unf show ?thesis by simp
    next
      case False
      with "1.prems" have eq: "cycle = cycles p - 1" by simp
      have "run_cycles p (cycle + 1) s1 = Inr s1"
        using False by (subst run_cycles.simps) simp
      moreover have "\<not> loop_fails p cycle (current_temp s)"
        using \<open>\<not> ?first\<close> eq by (auto simp: loop_fails_def)
      ultimately show ?thesis using unf t1 eq by simp
    qed
  qed
qed

text \<open>
  Claim C1, amended. The simulator checks neither \<open>cycles\<close> nor the rates. It returns the
  error result \<open>(None, None)\<close>, and never a partial profile, exactly when one of the ramps
  it performs has different source and target temperatures and divides by a rate that
  is zero (the heating rate for a rising ramp, the cooling rate for a falling one); the
  exception caught is then \<open>ZeroDivisionError\<close>. The ramps performed are: for \<open>cycles \<ge> 1\<close>
  from the initial to the high temperature, for \<open>cycles \<ge> 2\<close> also from high to low and
  from low to high, and at the end from high to the recovery temperature; for
  \<open>cycles < 1\<close> only the ramp from the initial to the recovery temperature. On every
  other input the function succeeds: also for \<open>cycles < 1\<close>, and for a zero rate that no
  ramp divides by.
\<close>

theorem no_validation:
  "(calculate_temperature_profile p = None) =
     (if 1 \<le> cycles p then
        zero_rate_ramp p (initial_temp p) (high_temp p) \<or>
        (2 \<le> cycles p \<and>
           (zero_rate_ramp p (high_temp p) (low_temp p) \<or>
            zero_rate_ramp p (low_temp p) (high_temp p))) \<or>
        zero_rate_ramp p (high_temp p) (recovery_temp p)
      else zero_rate_ramp p (initial_temp p) (recovery_temp p)) \<and>
   (calculate_temperature_profile p = None) = (simulate p = Inl ZeroDivisionError)"
proof -
  let ?s2 = "hold (initial_time p) initial_end
     (emit (initial_temp p) initial_start
        \<lparr>profile = [], key_points = [], current_time = 0, current_temp = initial_temp p\<rparr>)"
  have t2: "current_temp ?s2 = initial_temp p" by simp
  have none: "(calculate_temperature_profile p = None) = (simulate p = Inl ZeroDivisionError)"
    using simulate_error [of p]
    by (cases "simulate p") (auto simp: calculate_temperature_profile_def)
  have sim: "(simulate p = Inl ZeroDivisionError) =
     (if 1 \<le> cycles p then
        zero_rate_ramp p (initial_temp p) (high_temp p) \<or>
        (2 \<le> cycles p \<and>
           (zero_rate_ramp p (high_temp p) (low_temp p) \<or>
            zero_rate_ramp p (low_temp p) (high_temp p))) \<or>
        zero_rate_ramp p (high_temp p) (recovery_temp p)
      else zero_rate_ramp p (initial_temp p) (recovery_temp p))"
  proof (cases "1 \<le> cycles p")
    case True
    then have c0: "0 < cycles p" by simp
    have lf: "loop_fails p 0 (initial_temp p) =
        (zero_rate_ramp p (initial_temp p) (high_temp p) \<or>
         (2 \<le> cycles p \<and>
           (zero_rate_ramp p (high_temp p) (low_temp p) \<or>
            zero_rate_ramp p (low_temp p) (high_temp p))))"
      by (auto simp: loop_fails_def)
    show ?thesis
    proof (cases "loop_fails p 0 (initial_temp p)")
      case lfT: True
      with run_cycles_outcome [OF c0, of ?s2] t2
      have "run_cycles p 0 ?s2 = Inl ZeroDivisionError" by simp
      then have "simulate p = Inl ZeroDivisionError" by (simp add: simulate_def Let_def)
      with lfT lf True show ?thesis by auto
    next
      case lfF: False
      with run_cycles_outcome [OF c0, of ?s2] t2 obtain s3 where
        r: "run_cycles p 0 ?s2 = Inr s3" and t3: "current_temp s3 = high_temp p" by auto
      show ?thesis
      proof (cases "zero_rate_ramp p (high_temp p) (recovery_temp p)")
        case zT: True
        with t3 have "zero_rate_ramp p (current_temp s3) (recovery_temp p)" by simp
        from ramp_fails [OF this] r have "simulate p = Inl ZeroDivisionError"
          by (simp add: simulate_def Let_def)
        with zT True show ?thesis by simp
      next
        case zF: False
        with t3 have "\<not> zero_rate_ramp p (current_temp s3) (recovery_temp p)" by simp
        from ramp_succeeds [OF this] obtain s4 where
          "ramp p (recovery_temp p) recovery_reached s3 = Inr s4" by blast
        with r have "simulate p \<noteq> Inl ZeroDivisionError" by (simp add: simulate_def Let_def)
        with zF lfF lf True show ?thesis by simp
      qed
    qed
  next
    case False
    then have r: "run_cycles p 0 ?s2 = Inr ?s2" by (subst run_cycles.simps) simp
    show ?thesis
    proof (cases "zero_rate_ramp p (initial_temp p) (recovery_temp p)")
      case zT: True
      with t2 have "zero_rate_ramp p (current_temp ?s2) (recovery_temp p)" by simp
      from ramp_fails [OF this] r have "simulate p = Inl ZeroDivisionError"
        by (simp add: simulate_def Let_def)
      with zT False show ?thesis by simp
    next
      case zF: False
      with t2 have "\<not> zero_rate_ramp p (current_temp ?s2) (recovery_temp p)" by simp
      from ramp_succeeds [OF this] obtain s4 where
        "ramp p (recovery_temp p) recovery_reached ?s2 = Inr s4" by blast
      with r have "simulate p \<noteq> Inl ZeroDivisionError" by (simp add: simulate_def Let_def)
      with zF False show ?thesis by simp
    qed
  qed
  from none sim show ?thesis by simp
qed

theorem no_validation_witness:
  "calculate_temperature_profile (scenario\<lparr>heat_rate := 0\<rparr>) = None \<and>
   simulate (scenario\<lparr>heat_rate := 0\<rparr>) = Inl ZeroDivisionError \<and>
   zero_rate_ramp (scenario\<lparr>heat_rate := 0\<rparr>) 70 100 \<and>
   calculate_temperature_profile scenario \<noteq> None \<and>
   \<not> zero_rate_ramp scenario 70 100 \<and> \<not> zero_rate_ramp scenario 100 (- 20) \<and>
   \<not> zero_rate_ramp scenario (- 20) 100 \<and> \<not> zero_rate_ramp scenario 100 40"
proof -
  let ?z = "scenario\<lparr>heat_rate := 0\<rparr>"
  have z: "zero_rate_ramp ?z 70 100"
    by (simp add: zero_rate_ramp_def scenario_def)
  have n: "\<not> zero_rate_ramp scenario 70 100" "\<not> zero_rate_ramp scenario 100 (- 20)"
    "\<not> zero_rate_ramp scenario (- 20) 100" "\<not> zero_rate_ramp scenario 100 40"
    by (simp_all add: zero_rate_ramp_def scenario_fields)
  have zf: "initial_temp ?z = 70" "high_temp ?z = 100" "cycles ?z = 3"
    by (simp_all add: scenario_def)
  from no_validation [of ?z] z zf have "calculate_temperature_profile ?z = None"
    and "simulate ?z = Inl ZeroDivisionError" by auto
  moreover from no_validation [of scenario] n
  have "calculate_temperature_profile scenario \<noteq> None"
    by (auto simp: scenario_fields)
  ultimately show ?thesis using z n by simp
qed

text \<open>
  The claim as written fails on inputs the command line accepts: with \<open>cycles = 0\<close> the
  loop body never runs and the function returns the initial hold followed by the
  recovery; with \<open>heat_rate = 0\<close> and no rising ramp it returns a complete profile.
\<close>

theorem no_validation_counterexample:
  "cycles (scenario\<lparr>cycles := 0\<rparr>) < 1 \<and>
   calculate_temperature_profile (scenario\<lparr>cycles := 0\<rparr>) =
     Some ([(0, 70, initial_start), (1/2, 70, initial_end),
            (5/8, 40, recovery_reached), (9/8, 40, recovery_end)], [0, 1, 2, 3]) \<and>
   heat_rate (scenario\<lparr>initial_temp := 100, heat_rate := 0, cycles := 1\<rparr>) \<le> 0 \<and>
   calculate_temperature_profile (scenario\<lparr>initial_temp := 100, heat_rate := 0, cycles := 1\<rparr>) =
     Some ([(0, 100, initial_start), (1/2, 100, initial_end),
            (3/4, 100, first_cycle @ high_end),
            (1, 40, recovery_reached), (3/2, 40, recovery_end)], [0, 1, 2, 3, 4])"
  by (simp add: calculate_temperature_profile_def simulate_def scenario_def run_cycles.simps
        cycle_body_def cycle_settings_def ramp_def Let_def)

section \<open>Time never runs backwards\<close>

lemma ordered_hold: "time_ordered s \<Longrightarrow> 0 \<le> d \<Longrightarrow> time_ordered (hold d l s)"
  by (auto simp: time_ordered_def sorted_append list_all_iff)

lemma ordered_ramp:
  assumes "ramp p target l s = Inr s'" "time_ordered s" "0 < heat_rate p" "0 < cool_rate p"
  shows "time_ordered s'"
proof (cases "current_temp s = target")
  case True
  with assms show ?thesis by (simp add: ramp_def)
next
  case False
  define dt where "dt = \<bar>target - current_temp s\<bar> / (if target - current_temp s > 0 then heat_rate p else cool_rate p)"
  have dt: "0 \<le> dt" using assms(3,4) by (simp add: dt_def)
  from False assms(1,3,4) have s': "profile s' = profile s @ [(current_time s + dt, target, l)]"
    "current_time s' = current_time s + dt"
    by (auto simp: ramp_def Let_def dt_def split: if_splits)
  from assms(2) dt show ?thesis
    unfolding time_ordered_def s' by (auto simp: sorted_append list_all_iff intro: order_trans)
qed

lemma settings_nonneg:
  "nonneg_durations p \<Longrightarrow> cycle_settings p c = (ht, lt, ct) \<Longrightarrow> 0 \<le> ht \<and> 0 \<le> lt"
  by (auto simp: nonneg_durations_def cycle_settings_def split: if_splits)

lemma ordered_cycle_body:
  assumes "cycle_body p c s = Inr s'" "time_ordered s" "0 < heat_rate p" "0 < cool_rate p"
    "nonneg_durations p"
  shows "time_ordered s'"
proof -
  obtain ht lt ct where cs: "cycle_settings p c = (ht, lt, ct)" by (cases "cycle_settings p c")
  from settings_nonneg [OF assms(5) cs] have ht: "0 \<le> ht" and lt: "0 \<le> lt" by simp_all
  from assms(1) cs obtain s1 where r1: "ramp p (high_temp p) (ct @ high_reached) s = Inr s1"
    by (auto simp: cycle_body_def split: sum.splits)
  have o2: "time_ordered (hold ht (ct @ high_end) s1)"
    using ordered_ramp [OF r1 assms(2,3,4)] ht by (rule ordered_hold)
  show ?thesis
  proof (cases "c < cycles p - 1")
    case True
    with assms(1) cs r1 obtain s3 where
      r3: "ramp p (low_temp p) (ct @ low_reached) (hold ht (ct @ high_end) s1) = Inr s3"
      and s': "s' = hold lt (ct @ low_end) s3"
      by (auto simp: cycle_body_def Let_def split: sum.splits)
    from ordered_ramp [OF r3 o2 assms(3,4)] lt show ?thesis unfolding s' by (rule ordered_hold)
  next
    case False
    with assms(1) cs r1 have "s' = hold ht (ct @ high_end) s1"
      by (auto simp: cycle_body_def Let_def)
    with o2 show ?thesis by simp
  qed
qed

lemma ordered_run_cycles:
  "run_cycles p c s = Inr s' \<Longrightarrow> time_ordered s \<Longrightarrow> 0 < heat_rate p \<Longrightarrow> 0 < cool_rate p \<Longrightarrow>
   nonneg_durations p \<Longrightarrow> time_ordered s'"
proof (induction p c s rule: run_cycles.induct)
  case (1 p cycle s)
  show ?case
  proof (cases "cycle < cycles p")
    case True
    with "1.prems"(1) obtain s1 where b: "cycle_body p cycle s = Inr s1"
      and r: "run_cycles p (cycle + 1) s1 = Inr s'"
      by (subst (asm) run_cycles.simps) (auto split: sum.splits)
    from ordered_cycle_body [OF b "1.prems"(2-5)] have "time_ordered s1" .
    from "1.IH" [OF True b r this "1.prems"(3-5)] show ?thesis .
  next
    case False
    with "1.prems" show ?thesis
      by (subst (asm) run_cycles.simps) simp
  qed
qed

text \<open>
  Claim C4. With non-negative durations and positive rates the simulator succeeds and the
  times of its profile are non-decreasing from one point to the next, through every ramp
  and hold from the initial hold to the end of the recovery.
\<close>

theorem time_monotone:
  assumes "0 \<le> initial_time p" "0 \<le> recovery_time p"
    "0 \<le> first_high_time p" "0 \<le> first_low_time p"
    "0 \<le> last_high_time p" "0 \<le> last_low_time p"
    "0 \<le> middle_high_time p" "0 \<le> middle_low_time p"
    "0 < heat_rate p" "0 < cool_rate p"
  shows "\<exists>prof kps. calculate_temperature_profile p = Some (prof, kps) \<and> sorted (map fst prof)"
proof -
  have nn: "nonneg_durations p" using assms by (simp add: nonneg_durations_def)
  let ?s2 = "hold (initial_time p) initial_end
     (emit (initial_temp p) initial_start
        \<lparr>profile = [], key_points = [], current_time = 0, current_temp = initial_temp p\<rparr>)"
  have o2: "time_ordered ?s2" using assms(1) by (simp add: time_ordered_def)
  obtain r where ok: "simulate p = Inr r"
    using simulate_error [of p] assms(9,10) by (cases "simulate p") auto
  then obtain s3 s4 where
    r: "run_cycles p 0 ?s2 = Inr s3" and
    rc: "ramp p (recovery_temp p) recovery_reached s3 = Inr s4" and
    res: "r = (profile (hold (recovery_time p) recovery_end s4),
               key_points (hold (recovery_time p) recovery_end s4))"
    by (auto simp: simulate_def Let_def split: sum.splits)
  from ordered_run_cycles [OF r o2 assms(9,10) nn] have "time_ordered s3" .
  from ordered_ramp [OF rc this assms(9,10)] have "time_ordered s4" .
  from ordered_hold [OF this assms(2)]
  have "sorted (map fst (profile (hold (recovery_time p) recovery_end s4)))"
    by (simp add: time_ordered_def)
  with ok res show ?thesis by (simp add: calculate_temperature_profile_def)
qed

theorem time_monotone_witness:
  "0 \<le> initial_time scenario \<and> 0 \<le> recovery_time scenario \<and>
   0 \<le> first_high_time scenario \<and> 0 \<le> first_low_time scenario \<and>
   0 \<le> last_high_time scenario \<and> 0 \<le> last_low_time scenario \<and>
   0 \<le> middle_high_time scenario \<and> 0 \<le> middle_low_time scenario \<and>
   0 < heat_rate scenario \<and> 0 < cool_rate scenario \<and>
   calculate_temperature_profile scenario =
     Some (scenario_points, [0, 1, 2, 3, 4, 5, 6, 7, 8, 9, 10, 11, 12, 13]) \<and>
   sorted (map fst scenario_points)"
  using time_monotone [of scenario] scenario_run
  by (simp add: scenario_fields)

section \<open>The number of points\<close>

lemma ramp_count:
  assumes "heat_rate p \<noteq> 0" "cool_rate p \<noteq> 0"
  shows "\<exists>s'. ramp p target l s = Inr s' \<and>
     length (profile s') = length (profile s) + of_bool (current_temp s \<noteq> target) \<and>
     current_temp s' = target"
  using assms by (auto simp: ramp_def Let_def)

lemma cycle_body_count:
  assumes "heat_rate p \<noteq> 0" "cool_rate p \<noteq> 0"
  shows "\<exists>s'. cycle_body p c s = Inr s' \<and>
     length (profile s') = length (profile s) + of_bool (current_temp s \<noteq> high_temp p) + 1 +
        (if c < cycles p - 1 then of_bool (high_temp p \<noteq> low_temp p) + 1 else 0) \<and>
     current_temp s' = (if c < cycles p - 1 then low_temp p else high_temp p)"
proof -
  obtain ht lt ct where cs: "cycle_settings p c = (ht, lt, ct)" by (cases "cycle_settings p c")
  from ramp_count [OF assms] obtain s1 where
    r1: "ramp p (high_temp p) (ct @ high_reached) s = Inr s1" and
    l1: "length (profile s1) = length (profile s) + of_bool (current_temp s \<noteq> high_temp p)" and
    t1: "current_temp s1 = high_temp p" by blast
  let ?s2 = "hold ht (ct @ high_end) s1"
  from ramp_count [OF assms] obtain s3 where
    r3: "ramp p (low_temp p) (ct @ low_reached) ?s2 = Inr s3" and
    l3: "length (profile s3) = length (profile ?s2) + of_bool (current_temp ?s2 \<noteq> low_temp p)" and
    t3: "current_temp s3 = low_temp p" by blast
  show ?thesis
    using cs r1 l1 t1 r3 l3 t3 by (simp add: cycle_body_def Let_def)
qed

lemma run_cycles_count:
  "heat_rate p \<noteq> 0 \<Longrightarrow> cool_rate p \<noteq> 0 \<Longrightarrow> c < cycles p \<Longrightarrow>
   \<exists>s'. run_cycles p c s = Inr s' \<and> current_temp s' = high_temp p \<and>
      int (length (profile s')) = int (length (profile s)) +
         of_bool (current_temp s \<noteq> high_temp p) + 1 +
         (cycles p - 1 - c) * (2 + 2 * of_bool (high_temp p \<noteq> low_temp p))"
proof (induction p c s rule: run_cycles.induct)
  case (1 p cycle s)
  from cycle_body_count [OF "1.prems"(1,2), of cycle s] obtain s1 where
    b: "cycle_body p cycle s = Inr s1" and
    l1: "length (profile s1) = length (profile s) + of_bool (current_temp s \<noteq> high_temp p) + 1 +
        (if cycle < cycles p - 1 then of_bool (high_temp p \<noteq> low_temp p) + 1 else 0)" and
    t1: "current_temp s1 = (if cycle < cycles p - 1 then low_temp p else high_temp p)"
    by blast
  have unf: "run_cycles p cycle s = run_cycles p (cycle + 1) s1"
    using "1.prems"(3) b by (subst run_cycles.simps) simp
  show ?case
  proof (cases "cycle + 1 < cycles p")
    case True
    from "1.IH" [OF "1.prems"(3) b "1.prems"(1,2) True] obtain s' where
      r: "run_cycles p (cycle + 1) s1 = Inr s'" and t: "current_temp s' = high_temp p" and
      l: "int (length (profile s')) = int (length (profile s1)) +
         of_bool (current_temp s1 \<noteq> high_temp p) + 1 +
         (cycles p - 1 - (cycle + 1)) * (2 + 2 * of_bool (high_temp p \<noteq> low_temp p))"
      by blast
    from True have lt: "cycle < cycles p - 1" by simp
    have "int (length (profile s')) = int (length (profile s)) +
         of_bool (current_temp s \<noteq> high_temp p) + 1 +
         (cycles p - 1 - cycle) * (2 + 2 * of_bool (high_temp p \<noteq> low_temp p))"
      using l l1 t1 lt by (auto simp: algebra_simps)
    with unf r t show ?thesis by simp
  next
    case False
    with "1.prems"(3) have eq: "cycle = cycles p - 1" by simp
    have "run_cycles p (cycle + 1) s1 = Inr s1"
      using False by (subst run_cycles.simps) simp
    with unf l1 t1 eq show ?thesis by simp
  qed
qed

lemma ramp_prefix: "ramp p target l s = Inr s' \<Longrightarrow> \<exists>ys. profile s' = profile s @ ys"
  by (auto simp: ramp_def Let_def split: if_splits)

lemma cycle_body_prefix: "cycle_body p c s = Inr s' \<Longrightarrow> \<exists>ys. profile s' = profile s @ ys"
  unfolding cycle_body_def Let_def
  by (auto split: prod.splits sum.splits if_splits dest!: ramp_prefix)

lemma run_cycles_prefix: "run_cycles p c s = Inr s' \<Longrightarrow> \<exists>ys. profile s' = profile s @ ys"
proof (induction p c s rule: run_cycles.induct)
  case (1 p cycle s)
  show ?case
  proof (cases "cycle < cycles p")
    case True
    with "1.prems"(1) obtain s1 where b: "cycle_body p cycle s = Inr s1"
      and r: "run_cycles p (cycle + 1) s1 = Inr s'"
      by (subst (asm) run_cycles.simps) (auto split: sum.splits)
    from "1.IH" [OF True b r] cycle_body_prefix [OF b] show ?thesis by auto
  next
    case False
    with "1.prems" show ?thesis
      by (subst (asm) run_cycles.simps) simp
  qed
qed

lemma first_cycle_skipped:
  assumes "cycle_body p 0 s = Inr s'" "current_temp s = high_temp p"
  shows "\<exists>ys. profile s' =
     profile s @ (current_time s + first_high_time p, high_temp p, first_cycle @ high_end) # ys"
proof -
  have skip: "ramp p (high_temp p) (first_cycle @ high_reached) s = Inr s"
    using assms(2) by (simp add: ramp_def)
  let ?s2 = "hold (first_high_time p) (first_cycle @ high_end) s"
  show ?thesis
  proof (cases "0 < cycles p - 1")
    case True
    with assms(1) skip obtain s3 where
      r3: "ramp p (low_temp p) (first_cycle @ low_reached) ?s2 = Inr s3" and
      s': "s' = hold (first_low_time p) (first_cycle @ low_end) s3"
      by (auto simp: cycle_body_def cycle_settings_def Let_def split: sum.splits)
    from ramp_prefix [OF r3] obtain ys where "profile s3 = profile ?s2 @ ys" ..
    with s' assms(2) show ?thesis by simp
  next
    case False
    with assms(1) skip have "s' = ?s2"
      by (simp add: cycle_body_def cycle_settings_def Let_def)
    with assms(2) show ?thesis by simp
  qed
qed

text \<open>
  Claim C3, amended. For \<open>cycles \<ge> 1\<close> and positive rates the simulator succeeds and the
  profile has \<open>2 + cycles * 2 + (cycles - 1) * 2 + 2\<close> points minus one point (not a pair)
  for every ramp that is skipped because source and target temperature coincide: the
  first ramp when \<open>initial_temp = high_temp\<close>, the two ramps between each cycle and the
  next when \<open>low_temp = high_temp\<close>, the recovery ramp when \<open>recovery_temp = high_temp\<close>.
  With \<open>initial_temp = high_temp\<close> the first ramp emits nothing: the third point of the
  profile is already the end of the first hold at the high temperature, so that phase
  contributes one point instead of two.
\<close>

theorem point_count:
  assumes "1 \<le> cycles p" "0 < heat_rate p" "0 < cool_rate p"
  shows "\<exists>prof kps. calculate_temperature_profile p = Some (prof, kps) \<and>
     int (length prof) = 2 + cycles p * 2 + (cycles p - 1) * 2 + 2
        - (of_bool (initial_temp p = high_temp p)
           + (cycles p - 1) * 2 * of_bool (low_temp p = high_temp p)
           + of_bool (recovery_temp p = high_temp p)) \<and>
     (initial_temp p = high_temp p \<longrightarrow>
        take 3 prof =
          [(0, initial_temp p, initial_start), (initial_time p, initial_temp p, initial_end),
           (initial_time p + first_high_time p, high_temp p, first_cycle @ high_end)])"
proof -
  have nz: "heat_rate p \<noteq> 0" "cool_rate p \<noteq> 0" using assms by simp_all
  let ?s2 = "hold (initial_time p) initial_end
     (emit (initial_temp p) initial_start
        \<lparr>profile = [], key_points = [], current_time = 0, current_temp = initial_temp p\<rparr>)"
  from assms(1) have c0: "0 < cycles p" by simp
  from run_cycles_count [OF nz c0, of ?s2] obtain s3 where
    r: "run_cycles p 0 ?s2 = Inr s3" and t3: "current_temp s3 = high_temp p" and
    l3: "int (length (profile s3)) = 2 + of_bool (initial_temp p \<noteq> high_temp p) + 1 +
         (cycles p - 1) * (2 + 2 * of_bool (high_temp p \<noteq> low_temp p))"
    by auto
  from ramp_count [OF nz, of "recovery_temp p" recovery_reached s3] t3 obtain s4 where
    rc: "ramp p (recovery_temp p) recovery_reached s3 = Inr s4" and
    l4: "length (profile s4) = length (profile s3) + of_bool (high_temp p \<noteq> recovery_temp p)"
    by auto
  let ?prof = "profile (hold (recovery_time p) recovery_end s4)"
  have res: "calculate_temperature_profile p =
      Some (?prof, key_points (hold (recovery_time p) recovery_end s4))"
    using r rc by (simp add: calculate_temperature_profile_def simulate_def Let_def)
  have len: "int (length ?prof) = 2 + cycles p * 2 + (cycles p - 1) * 2 + 2
        - (of_bool (initial_temp p = high_temp p)
           + (cycles p - 1) * 2 * of_bool (low_temp p = high_temp p)
           + of_bool (recovery_temp p = high_temp p))"
    using l3 l4 by (auto simp: algebra_simps of_bool_def)
  have first: "take 3 ?prof =
          [(0, initial_temp p, initial_start), (initial_time p, initial_temp p, initial_end),
           (initial_time p + first_high_time p, high_temp p, first_cycle @ high_end)]"
    if eq: "initial_temp p = high_temp p"
  proof -
    from r c0 obtain s1 where b: "cycle_body p 0 ?s2 = Inr s1"
      and r1: "run_cycles p (0 + 1) s1 = Inr s3"
      by (subst (asm) run_cycles.simps) (auto split: sum.splits)
    from first_cycle_skipped [OF b] eq obtain ys where
      "profile s1 = profile ?s2 @
         (current_time ?s2 + first_high_time p, high_temp p, first_cycle @ high_end) # ys"
      by auto
    moreover from run_cycles_prefix [OF r1] obtain zs where "profile s3 = profile s1 @ zs" ..
    moreover from ramp_prefix [OF rc] obtain ws where "profile s4 = profile s3 @ ws" ..
    ultimately show ?thesis by simp
  qed
  from res len first show ?thesis by blast
qed

theorem point_count_witness:
  "1 \<le> cycles degenerate \<and> 0 < heat_rate degenerate \<and> 0 < cool_rate degenerate \<and>
   initial_temp degenerate = high_temp degenerate \<and>
   calculate_temperature_profile degenerate =
     Some (degenerate_points, [0, 1, 2, 3, 4, 5, 6, 7, 8, 9, 10, 11, 12]) \<and>
   int (length degenerate_points) = 2 + 3 * 2 + (3 - 1) * 2 + 2 - 1 \<and>
   take 3 degenerate_points =
     [(0, 100, initial_start), (1/2, 100, initial_end), (3/4, 100, first_cycle @ high_end)]"
  using point_count [of degenerate] degenerate_run
  by (simp add: degenerate_fields)

text \<open>
  The claim as written fails: the run with \<open>initial_temp = high_temp\<close> has 13 points, one
  fewer than the 14 of the scenario, where the claim subtracts a pair.
\<close>

theorem point_count_counterexample:
  "calculate_temperature_profile degenerate =
     Some (degenerate_points, [0, 1, 2, 3, 4, 5, 6, 7, 8, 9, 10, 11, 12]) \<and>
   initial_temp degenerate = high_temp degenerate \<and>
   int (length degenerate_points) = 13 \<and>
   int (length degenerate_points) \<noteq>
     2 + cycles degenerate * 2 + (cycles degenerate - 1) * 2 + 2 - 2 \<and>
   calculate_temperature_profile scenario =
     Some (scenario_points, [0, 1, 2, 3, 4, 5, 6, 7, 8, 9, 10, 11, 12, 13]) \<and>
   int (length scenario_points) - int (length degenerate_points) = 1"
  using degenerate_run scenario_run
  by (simp add: degenerate_fields degenerate_points_def scenario_points_def)

section \<open>A single cycle\<close>

text \<open>
  Claim C6. When \<open>cycles = 1\<close> the only cycle, number 0, takes the first-cycle durations
  and the first-cycle label prefix, which differs from the last-cycle prefix, because
  the test for the first cycle comes before the test for the last: the whole loop is one
  ramp to the high temperature and one hold of \<open>first_high_time\<close>, both labelled as first
  cycle.
\<close>

theorem single_cycle_is_first:
  assumes "cycles p = 1"
  shows "cycle_settings p 0 = (first_high_time p, first_low_time p, first_cycle) \<and>
         first_cycle \<noteq> last_cycle \<and>
         run_cycles p 0 s =
           (case ramp p (high_temp p) (first_cycle @ high_reached) s of
              Inl e \<Rightarrow> Inl e
            | Inr s1 \<Rightarrow> Inr (hold (first_high_time p) (first_cycle @ high_end) s1))"
proof -
  have a: "cycle_settings p 0 = (first_high_time p, first_low_time p, first_cycle)"
    by (simp add: cycle_settings_def)
  have b: "first_cycle \<noteq> last_cycle"
    by (simp add: first_cycle_def last_cycle_def)
  have stop: "run_cycles p 1 s' = Inr s'" for s'
    using assms by (subst run_cycles.simps) simp
  have c: "run_cycles p 0 s =
           (case ramp p (high_temp p) (first_cycle @ high_reached) s of
              Inl e \<Rightarrow> Inl e
            | Inr s1 \<Rightarrow> Inr (hold (first_high_time p) (first_cycle @ high_end) s1))"
    using assms
    by (subst run_cycles.simps) (simp add: cycle_body_def a Let_def stop split: sum.splits)
  from a b c show ?thesis by blast
qed

theorem single_cycle_is_first_witness:
  "cycles (scenario\<lparr>cycles := 1\<rparr>) = 1 \<and>
   run_cycles (scenario\<lparr>cycles := 1\<rparr>) 0
     \<lparr>profile = [(0, 70, initial_start), (1/2, 70, initial_end)], key_points = [0, 1],
      current_time = 1/2, current_temp = 70\<rparr> =
   Inr \<lparr>profile = [(0, 70, initial_start), (1/2, 70, initial_end),
                   (2/3, 100, first_cycle @ high_reached),
                   (2/3 + first_high_time scenario, 100, first_cycle @ high_end)],
        key_points = [0, 1, 2, 3], current_time = 11/12, current_temp = 100\<rparr>"
  using single_cycle_is_first [of "scenario\<lparr>cycles := 1\<rparr>"
      "\<lparr>profile = [(0, 70, initial_start), (1/2, 70, initial_end)], key_points = [0, 1],
        current_time = 1/2, current_temp = 70\<rparr>"]
  by (simp add: scenario_def ramp_def hold_def emit_def Let_def)

section \<open>Label collisions\<close>

lemma place_time_label_eq:
  "place_time_label xlim ylim used time =
     (if list_ex (\<lambda>(used_x, used_y). \<bar>time - used_x\<bar> < 0.03 * (snd xlim - fst xlim)) used
      then ((time, fst ylim + (snd ylim - fst ylim) * 0.06), used)
      else ((time, fst ylim + (snd ylim - fst ylim) * 0.02),
            used @ [(time, fst ylim + (snd ylim - fst ylim) * 0.02)]))"
  by (simp add: place_time_label_def Let_def)

lemma place_temp_label_eq:
  "place_temp_label xlim ylim used temp =
     (if list_ex (\<lambda>(used_x, used_y). \<bar>temp - used_y\<bar> < 0.03 * (snd ylim - fst ylim)) used
      then ((fst xlim + (snd xlim - fst xlim) * 0.06, temp), used)
      else ((fst xlim + (snd xlim - fst xlim) * 0.02, temp),
            used @ [(fst xlim + (snd xlim - fst xlim) * 0.02, temp)]))"
  by (simp add: place_temp_label_def Let_def)

lemma annotate_point_eq:
  "annotate_point xlim ylim used time temp =
     (let x_hit = list_ex (\<lambda>(used_x, used_y). \<bar>time - used_x\<bar> < 0.03 * (snd xlim - fst xlim)) used;
          time_anchor = (time, fst ylim + (snd ylim - fst ylim) * 0.02);
          y_hit = list_ex (\<lambda>(used_x, used_y). \<bar>temp - used_y\<bar> < 0.03 * (snd ylim - fst ylim))
                    (used @ (if x_hit then [] else [time_anchor]));
          temp_anchor = (fst xlim + (snd xlim - fst xlim) * 0.02, temp)
      in (\<lparr>marker = (time, temp),
           time_label = (if x_hit then (time, fst ylim + (snd ylim - fst ylim) * 0.06)
                         else time_anchor),
           temp_label = (if y_hit then (fst xlim + (snd xlim - fst xlim) * 0.06, temp)
                         else temp_anchor)\<rparr>,
          used @ (if x_hit then [] else [time_anchor]) @ (if y_hit then [] else [temp_anchor])))"
  by (simp add: annotate_point_def place_time_label_eq place_temp_label_eq Let_def)

lemma annotate_point_committed:
  assumes "fst xlim < snd xlim" "fst ylim < snd ylim"
    and "annotate_point xlim ylim used time temp = (a, used')"
  shows "used' = used @ committed xlim ylim a"
  using assms
  by (auto simp: annotate_point_eq committed_def Let_def split: if_splits)

lemma annotate_point_labels:
  assumes "fst ylim < snd ylim"
    and "annotate_point xlim ylim used time temp = (a, used')"
  shows "marker a = (time, temp)"
    and "time_label a =
      (if list_ex (\<lambda>(used_x, used_y). \<bar>time - used_x\<bar> < 0.03 * (snd xlim - fst xlim)) used
       then (time, fst ylim + (snd ylim - fst ylim) * 0.06)
       else (time, fst ylim + (snd ylim - fst ylim) * 0.02))"
    and "temp_label a =
      (if list_ex (\<lambda>(used_x, used_y). \<bar>temp - used_y\<bar> < 0.03 * (snd ylim - fst ylim))
            (used @ (if snd (time_label a) = fst ylim + (snd ylim - fst ylim) * 0.02
                     then [time_label a] else []))
       then (fst xlim + (snd xlim - fst xlim) * 0.06, temp)
       else (fst xlim + (snd xlim - fst xlim) * 0.02, temp))"
  using assms
  by (auto simp: annotate_point_eq Let_def split: if_splits)

lemma annotate_length: "annotate xlim ylim prof idxs used = Inr anns \<Longrightarrow> length anns = length idxs"
  by (induction idxs arbitrary: used anns) (auto split: sum.splits prod.splits)

lemma annotate_nth:
  assumes "fst xlim < snd xlim" "fst ylim < snd ylim"
  shows "annotate xlim ylim prof idxs used = Inr anns \<Longrightarrow> k < length anns \<Longrightarrow>
     \<exists>time temp desc used'. py_index prof (idxs ! k) = Inr (time, temp, desc) \<and>
        annotate_point xlim ylim (used @ concat (map (committed xlim ylim) (take k anns)))
          time temp = (anns ! k, used')"
proof (induction idxs arbitrary: used anns k)
  case Nil
  then show ?case by simp
next
  case (Cons idx rest)
  from Cons.prems(1) obtain time temp desc a used1 anns' where
    px: "py_index prof idx = Inr (time, temp, desc)" and
    ap: "annotate_point xlim ylim used time temp = (a, used1)" and
    rest: "annotate xlim ylim prof rest used1 = Inr anns'" and
    anns: "anns = a # anns'"
    by (auto split: sum.splits prod.splits)
  show ?case
  proof (cases k)
    case 0
    with px ap anns show ?thesis by simp
  next
    case (Suc j)
    with Cons.prems(2) anns have j: "j < length anns'" by simp
    from annotate_point_committed [OF assms ap] have u1: "used1 = used @ committed xlim ylim a" .
    from Cons.IH [OF rest j] u1 Suc anns show ?thesis by simp
  qed
qed

lemma scenario_annotate:
  "annotate scenario_xlim scenario_ylim scenario_points
     (key_indices [0, 1, 2, 3, 4, 5, 6, 7, 8, 9, 10, 11, 12, 13]) [] = Inr scenario_annotations"
  by (simp add: key_indices_def scenario_points_def scenario_xlim_def scenario_ylim_def
        py_index_def annotate_point_def place_time_label_def place_temp_label_def Let_def
        scenario_annotations_def)

text \<open>
  Claim C7, amended. The loop over the key points, in chronological order, keeps one list
  of committed anchors, not two: a time-axis label placed on its first tier is appended
  to it as \<open>(time, y of the 2% tier)\<close>, a temperature-axis label placed on its first tier
  as \<open>(x of the 2% tier, temperature)\<close>, and the list is carried from one key point to
  the next. The temperature-axis label of a key point moves from the 2% to the 6% x-inset
  if and only if its temperature lies within 3% of the span of the y axis (upper minus
  lower limit of the plot) of the second component of some anchor in the list: an anchor
  committed by an earlier key point, of either kind, or the one of the key point's own
  time-axis label when that was placed on the first tier. In the same way the time-axis
  label moves to the 6% tier if and only if the time lies within 3% of the span of the x
  axis of the first component of some anchor committed by an earlier key point. So a
  time-axis label can trigger a temperature-axis collision.
\<close>

theorem label_tiers:
  assumes "fst xlim < snd xlim" and "fst ylim < snd ylim"
    and "annotate xlim ylim prof (key_indices kps) [] = Inr anns"
    and "k < length anns"
  shows "\<exists>time temp desc.
     py_index prof (key_indices kps ! k) = Inr (time, temp, desc) \<and>
     marker (anns ! k) = (time, temp) \<and>
     time_label (anns ! k) =
       (if list_ex (\<lambda>(used_x, used_y). \<bar>time - used_x\<bar> < 0.03 * (snd xlim - fst xlim))
             (concat (map (committed xlim ylim) (take k anns)))
        then (time, fst ylim + (snd ylim - fst ylim) * 0.06)
        else (time, fst ylim + (snd ylim - fst ylim) * 0.02)) \<and>
     temp_label (anns ! k) =
       (if list_ex (\<lambda>(used_x, used_y). \<bar>temp - used_y\<bar> < 0.03 * (snd ylim - fst ylim))
             (concat (map (committed xlim ylim) (take k anns)) @
              (if snd (time_label (anns ! k)) = fst ylim + (snd ylim - fst ylim) * 0.02
               then [time_label (anns ! k)] else []))
        then (fst xlim + (snd xlim - fst xlim) * 0.06, temp)
        else (fst xlim + (snd xlim - fst xlim) * 0.02, temp))"
proof -
  from annotate_nth [OF assms(1,2,3,4)] obtain time temp desc used' where
    px: "py_index prof (key_indices kps ! k) = Inr (time, temp, desc)" and
    ap: "annotate_point xlim ylim ([] @ concat (map (committed xlim ylim) (take k anns)))
          time temp = (anns ! k, used')"
    by blast
  from ap have ap': "annotate_point xlim ylim (concat (map (committed xlim ylim) (take k anns)))
          time temp = (anns ! k, used')" by simp
  from annotate_point_labels [OF assms(2) ap'] px show ?thesis by blast
qed

theorem label_tiers_witness:
  "fst scenario_xlim < snd scenario_xlim \<and> fst scenario_ylim < snd scenario_ylim \<and>
   annotate scenario_xlim scenario_ylim scenario_points
     (key_indices [0, 1, 2, 3, 4, 5, 6, 7, 8, 9, 10, 11, 12, 13]) [] = Inr scenario_annotations \<and>
   (4::nat) < length scenario_annotations \<and>
   py_index scenario_points (key_indices [0, 1, 2, 3, 4, 5, 6, 7, 8, 9, 10, 11, 12, 13] ! 4) =
     Inr (17/12, - 20, first_cycle @ low_reached) \<and>
   marker (scenario_annotations ! 4) = (17/12, - 20) \<and>
   time_label (scenario_annotations ! 4) = (17/12, - 584/25) \<and>
   temp_label (scenario_annotations ! 4) = (33/250, - 20)"
proof -
  have x: "fst scenario_xlim < snd scenario_xlim" by (simp add: scenario_xlim_def)
  have y: "fst scenario_ylim < snd scenario_ylim" by (simp add: scenario_ylim_def)
  have k: "(4::nat) < length scenario_annotations" by (simp add: scenario_annotations_def)
  from label_tiers [OF x y scenario_annotate k] x y scenario_annotate k show ?thesis
    by (auto simp: scenario_annotations_def key_indices_def scenario_points_def py_index_def)
qed

text \<open>
  The claim as written fails on the scenario itself: the fifth key point is the first at
  -20 degrees, no temperature-axis label placed before it lies within 3% of the y span
  of -20, and still its temperature label is on the 6% tier. The anchor it collides
  with is the one of the first time-axis label, whose y position is 3.36 below.
\<close>

theorem label_tiers_counterexample:
  "calculate_temperature_profile scenario =
     Some (scenario_points, [0, 1, 2, 3, 4, 5, 6, 7, 8, 9, 10, 11, 12, 13]) \<and>
   create_chart_image True scenario_xlim scenario_ylim scenario_points
     [0, 1, 2, 3, 4, 5, 6, 7, 8, 9, 10, 11, 12, 13] = Some scenario_annotations \<and>
   temp_label (scenario_annotations ! 4) =
     (fst scenario_xlim + (snd scenario_xlim - fst scenario_xlim) * 0.06, - 20) \<and>
   \<not> list_ex (\<lambda>a. \<bar>- 20 - snd (temp_label a)\<bar> < 0.03 * (snd scenario_ylim - fst scenario_ylim))
       (take 4 scenario_annotations) \<and>
   \<bar>- 20 - snd (time_label (scenario_annotations ! 0))\<bar>
     < 0.03 * (snd scenario_ylim - fst scenario_ylim)"
  using scenario_run scenario_annotate
  by (simp add: create_chart_image_def chart_image_body_def scenario_annotations_def
        scenario_xlim_def scenario_ylim_def)

section \<open>The empty profile\<close>

lemma simulate_at_least_three:
  assumes "calculate_temperature_profile p = Some (prof, kps)"
  shows "3 \<le> length prof \<and> kps \<noteq> []"
proof -
  let ?s2 = "hold (initial_time p) initial_end
     (emit (initial_temp p) initial_start
        \<lparr>profile = [], key_points = [], current_time = 0, current_temp = initial_temp p\<rparr>)"
  from assms obtain s3 s4 where
    r: "run_cycles p 0 ?s2 = Inr s3" and
    rc: "ramp p (recovery_temp p) recovery_reached s3 = Inr s4" and
    pr: "prof = profile (hold (recovery_time p) recovery_end s4)" and
    kp: "kps = key_points (hold (recovery_time p) recovery_end s4)"
    by (auto simp: calculate_temperature_profile_def simulate_def Let_def split: sum.splits)
  from run_cycles_prefix [OF r] obtain ys where "profile s3 = profile ?s2 @ ys" ..
  moreover from ramp_prefix [OF rc] obtain zs where "profile s4 = profile s3 @ zs" ..
  ultimately show ?thesis using pr kp by simp
qed

text \<open>
  Claim C8, amended. On an empty profile with no key points the annotation loop places
  nothing and raises nothing, in both files, and \<open>create_chart_image\<close> of web.py goes on to
  return its chart, without annotations, when the image can be written.
  \<open>create_chart_png\<close> of MAIN01.py does not: after the loop it takes \<open>max(times)\<close> of the
  empty list, the \<open>ValueError\<close> is caught and the function returns \<open>False\<close>, its
  failure value, whether or not the image could be written. The program never gets
  there: both \<open>main\<close> functions return before the chart step when the profile or the
  key-point list is empty, and a profile the simulator returns has at least three points
  and passes that test.
\<close>

theorem empty_profile_chart:
  "annotate xlim ylim [] (key_indices []) [] = Inr [] \<and>
   create_chart_image saved xlim ylim [] [] = (if saved then Some [] else None) \<and>
   chart_png_body saved xlim ylim [] [] = Inl ValueError \<and>
   create_chart_png saved xlim ylim [] [] = False \<and>
   \<not> passes_profile_guard (Some ([], [])) \<and>
   (calculate_temperature_profile p = Some (prof, kps) \<longrightarrow>
      3 \<le> length prof \<and> passes_profile_guard (Some (prof, kps)))"
proof -
  have "calculate_temperature_profile p = Some (prof, kps) \<longrightarrow>
      3 \<le> length prof \<and> passes_profile_guard (Some (prof, kps))"
    using simulate_at_least_three [of p prof kps]
    by (auto simp: passes_profile_guard_def)
  then show ?thesis
    by (simp add: create_chart_image_def chart_image_body_def create_chart_png_def
          chart_png_body_def key_indices_def py_max_def passes_profile_guard_def)
qed

theorem empty_profile_chart_witness:
  "calculate_temperature_profile scenario =
     Some (scenario_points, [0, 1, 2, 3, 4, 5, 6, 7, 8, 9, 10, 11, 12, 13]) \<and>
   3 \<le> length scenario_points \<and>
   passes_profile_guard (Some (scenario_points, [0, 1, 2, 3, 4, 5, 6, 7, 8, 9, 10, 11, 12, 13])) \<and>
   create_chart_png True scenario_xlim scenario_ylim [] [] = False"
  using scenario_run
    empty_profile_chart [of scenario_xlim scenario_ylim True scenario scenario_points
      "[0, 1, 2, 3, 4, 5, 6, 7, 8, 9, 10, 11, 12, 13]"]
  by simp

text \<open>
  The claim as written fails for \<open>create_chart_png\<close>: the empty profile gives the failure
  value, not an empty chart.
\<close>

theorem empty_profile_chart_counterexample:
  "chart_png_body True (0, 1) (0, 1) [] [] = Inl ValueError \<and>
   create_chart_png True (0, 1) (0, 1) [] [] = False"
  by (simp add: create_chart_png_def chart_png_body_def key_indices_def py_max_def)

end
